theory Spec2Isabelle
  imports Main
begin

section \<open>The password hash record of Wt::Auth\<close>

text \<open>
  The translation unit \<^verbatim>\<open>src/Wt/Auth/PasswordHash.C\<close> defines the two constructors of
  \<^verbatim>\<open>Wt::Auth::PasswordHash\<close>: the default constructor with an empty body and no member
  initialisers, and the constructor that copies its three \<^verbatim>\<open>const std::string&\<close>
  arguments into the members \<^verbatim>\<open>function_\<close>, \<^verbatim>\<open>salt_\<close> and \<^verbatim>\<open>value_\<close>.
\<close>

subsection \<open>Data model\<close>

text \<open>
  Modelled from the spec: the class declaration (the header \<^verbatim>\<open>PasswordHash\<close> included by
  the translation unit) is not among the sources. The spec's data model gives the record
  the three fields function, salt and value; the member initialisers of the source give
  their names and show that each is built from a \<^verbatim>\<open>std::string\<close>. A \<^verbatim>\<open>std::string\<close> is a
  sequence of bytes, here a \<^typ>\<open>string\<close>. The member names end in an underscore, which
  is not a name of a constant here, so each selector carries a prime after it.
\<close>

record PasswordHash =
  function_' :: string
  salt_' :: string
  value_' :: string

subsection \<open>The constructors\<close>

text \<open>
  \<^verbatim>\<open>PasswordHash::PasswordHash() { }\<close>: no member has an initialiser, so each one is
  default-constructed, and a default-constructed \<^verbatim>\<open>std::string\<close> is empty.
\<close>

definition PasswordHash_default :: PasswordHash where
  "PasswordHash_default = \<lparr>function_' = [], salt_' = [], value_' = []\<rparr>"

text \<open>
  \<^verbatim>\<open>PasswordHash::PasswordHash(function, salt, value) : function_(function), salt_(salt),
  value_(value) { }\<close>: each member is copy-constructed from the argument of the same name.
  The body is empty: nothing is checked and nothing is thrown.
\<close>

definition PasswordHash_init :: "string \<Rightarrow> string \<Rightarrow> string \<Rightarrow> PasswordHash" where
  "PasswordHash_init function salt value =
     \<lparr>function_' = function, salt_' = salt, value_' = value\<rparr>"

text \<open>
  The invariant that the data model states for a record: an empty function comes with an
  empty salt and an empty value.
\<close>

definition unset_invariant :: "PasswordHash \<Rightarrow> bool" where
  "unset_invariant h \<longleftrightarrow> (function_' h = [] \<longrightarrow> salt_' h = [] \<and> value_' h = [])"

section \<open>The verifier around the record\<close>

subsection \<open>Hash functions and their registry\<close>

text \<open>
  Modelled from the spec: the hash functions, their registry and the verifier are not
  among the sources; the definitions of this section follow sections 3, 4.1, 4.3 and 7
  of the spec. A hash function is a capability of which the verifier uses \<open>compute\<close>,
  mapping a password and a salt to a value. Inside \<open>compute\<close> a malformed salt fails
  with \<open>DecodeError\<close>, so the result is a sum.
\<close>

datatype VerifyResult = Valid | Invalid | UnknownAlgorithm

datatype error = UnknownAlgorithm_error | DecodeError

record HashFunction =
  compute :: "string \<Rightarrow> string \<Rightarrow> error + string"

text \<open>
  Modelled from the spec: the registry (section 4.1) maps a function identifier to an
  implementation. \<open>registerFunction\<close> adds or replaces the implementation for an
  identifier; \<open>get\<close> returns the implementation or fails with \<open>UnknownAlgorithm\<close> when
  the identifier is absent.
\<close>

type_synonym registry = "string \<rightharpoonup> HashFunction"

definition registerFunction :: "string \<Rightarrow> HashFunction \<Rightarrow> registry \<Rightarrow> registry" where
  "registerFunction identifier implementation reg = reg(identifier \<mapsto> implementation)"

definition registry_get :: "registry \<Rightarrow> string \<Rightarrow> error + HashFunction" where
  "registry_get reg identifier =
     (case reg identifier of
        None \<Rightarrow> Inl UnknownAlgorithm_error
      | Some implementation \<Rightarrow> Inr implementation)"

subsection \<open>Comparison and verification\<close>

text \<open>
  Modelled from the spec: the byte comparison of section 4.3, which never stops at the
  first differing byte. It walks both sequences to the end of the shorter one and
  collects in a flag whether any pair of bytes differed; sequences of different lengths
  are unequal.
\<close>

fun accumulate_diff :: "string \<Rightarrow> string \<Rightarrow> bool \<Rightarrow> bool" where
  "accumulate_diff (x # xs) (y # ys) d = accumulate_diff xs ys (d \<or> x \<noteq> y)"
| "accumulate_diff _ _ d = d"

definition constant_time_equal :: "string \<Rightarrow> string \<Rightarrow> bool" where
  "constant_time_equal a b \<longleftrightarrow> length a = length b \<and> \<not> accumulate_diff a b False"

text \<open>
  Modelled from the spec: \<open>verify\<close> of section 4.3, with the registry passed in. An
  empty function gives \<open>Invalid\<close>; a function absent from the registry gives
  \<open>UnknownAlgorithm\<close>; otherwise the value is recomputed from the password and the
  stored salt and compared with the stored value. A \<open>DecodeError\<close> of \<open>compute\<close> is
  reported as \<open>Invalid\<close> (section 7).
\<close>

definition verify :: "registry \<Rightarrow> string \<Rightarrow> PasswordHash \<Rightarrow> VerifyResult" where
  "verify reg password hash =
     (if function_' hash = [] then Invalid
      else case registry_get reg (function_' hash) of
             Inl e \<Rightarrow> UnknownAlgorithm
           | Inr implementation \<Rightarrow>
               (case compute implementation password (salt_' hash) of
                  Inl e \<Rightarrow> Invalid
                | Inr v \<Rightarrow>
                    if constant_time_equal v (value_' hash) then Valid else Invalid))"

text \<open>
  Modelled from the spec: computing the record of a password under the function
  registered as \<open>identifier\<close> (sections 4.4 and 8): the record names the identifier and
  holds the salt and the computed value. It fails when the identifier is not registered
  or \<open>compute\<close> fails.
\<close>

definition compute_record ::
    "registry \<Rightarrow> string \<Rightarrow> string \<Rightarrow> string \<Rightarrow> error + PasswordHash" where
  "compute_record reg identifier password salt =
     (case registry_get reg identifier of
        Inl e \<Rightarrow> Inl e
      | Inr implementation \<Rightarrow>
          (case compute implementation password salt of
             Inl e \<Rightarrow> Inl e
           | Inr v \<Rightarrow> Inr (PasswordHash_init identifier salt v)))"

text \<open>
  A registry to run the definitions on, after the scenario of section 8 of the spec: one
  function is registered as \<open>sha1\<close>. Its \<open>compute\<close> is the concatenation of salt and
  password, in place of a digest of it.
\<close>

definition example_registry :: registry where
  "example_registry =
     registerFunction ''sha1'' \<lparr>compute = (\<lambda>password salt. Inr (salt @ password))\<rparr> Map.empty"

section \<open>Properties of the constructors\<close>

text \<open>
  C2: for every triple of strings, the parameterised constructor yields a record whose
  three fields are the three arguments, unchanged. The constructor is a total function
  into the record type, so no input is rejected, the empty string included.
\<close>

theorem PasswordHash_init_fields:
  "function_' (PasswordHash_init f s v) = f \<and>
   salt_' (PasswordHash_init f s v) = s \<and>
   value_' (PasswordHash_init f s v) = v"
  by (simp add: PasswordHash_init_def)

text \<open>
  C3: the default constructor yields the unset sentinel, the record whose function, salt
  and value are all the empty string.
\<close>

theorem PasswordHash_default_fields:
  "function_' PasswordHash_default = [] \<and>
   salt_' PasswordHash_default = [] \<and>
   value_' PasswordHash_default = []"
  by (simp add: PasswordHash_default_def)

text \<open>
  C9: the default constructor and the parameterised constructor applied to three empty
  strings yield the same record, field by field.
\<close>

theorem PasswordHash_default_eq_init_empty:
  "PasswordHash_default = PasswordHash_init [] [] [] \<and>
   function_' PasswordHash_default = function_' (PasswordHash_init [] [] []) \<and>
   salt_' PasswordHash_default = salt_' (PasswordHash_init [] [] []) \<and>
   value_' PasswordHash_default = value_' (PasswordHash_init [] [] [])"
  by (simp add: PasswordHash_default_def PasswordHash_init_def)

text \<open>
  C1, as amended: the record of the default constructor satisfies the invariant of the
  data model; the record of the parameterised constructor satisfies it exactly when the
  arguments do, that is, when the function given is not empty or the salt and the value
  given are both empty. The constructor checks nothing.
\<close>

theorem constructors_invariant_iff_arguments:
  "unset_invariant PasswordHash_default \<and>
   (unset_invariant (PasswordHash_init f s v) \<longleftrightarrow> (f = [] \<longrightarrow> s = [] \<and> v = []))"
  by (simp add: unset_invariant_def PasswordHash_default_def PasswordHash_init_def)

text \<open>
  The amended C1 at arguments that satisfy the invariant: three empty strings, and a
  record with a function.
\<close>

theorem constructors_invariant_iff_arguments_witness:
  "unset_invariant (PasswordHash_init [] [] []) \<and>
   unset_invariant (PasswordHash_init ''bcrypt'' ''s'' ''v'')"
  using constructors_invariant_iff_arguments [of "[]" "[]" "[]"]
    constructors_invariant_iff_arguments [of "''bcrypt''" "''s''" "''v''"]
  by simp

text \<open>
  C1 as stated fails: given an empty function with a salt and a value, the parameterised
  constructor yields a record that breaks the invariant.
\<close>

theorem PasswordHash_init_breaks_invariant:
  "\<not> unset_invariant (PasswordHash_init [] ''s'' ''v'')"
  by (simp add: unset_invariant_def PasswordHash_init_def)

section \<open>Properties of the verifier\<close>

lemma accumulate_diff_True: "accumulate_diff a b True"
  by (induction a b "True" rule: accumulate_diff.induct) simp_all

lemma accumulate_diff_iff:
  "length a = length b \<Longrightarrow> accumulate_diff a b False \<longleftrightarrow> a \<noteq> b"
proof (induction a arbitrary: b)
  case Nil
  then show ?case by simp
next
  case (Cons x xs)
  then obtain y ys where b: "b = y # ys"
    by (cases b) auto
  show ?case
  proof (cases "x = y")
    case True
    with Cons b show ?thesis by simp
  next
    case False
    with b show ?thesis by (simp add: accumulate_diff_True)
  qed
qed

lemma constant_time_equal_iff: "constant_time_equal a b \<longleftrightarrow> a = b"
  using accumulate_diff_iff [of a b] by (auto simp: constant_time_equal_def)

lemma example_registry_sha1:
  "example_registry ''sha1'' = Some \<lparr>compute = (\<lambda>password salt. Inr (salt @ password))\<rparr>"
  by (simp add: example_registry_def registerFunction_def)

lemma example_registry_md5: "example_registry ''md5'' = None"
  by (simp add: example_registry_def registerFunction_def)

text \<open>
  C5: for every password, the empty one included, and every registry, \<open>verify\<close> on a
  record whose function is the empty string is \<open>Invalid\<close>.
\<close>

theorem verify_unset_Invalid:
  "function_' hash = [] \<Longrightarrow> verify reg password hash = Invalid"
  by (simp add: verify_def)

text \<open>
  C5 on the record of the default constructor with the empty password, and on a record
  with an empty function that has a salt and a value.
\<close>

theorem verify_unset_Invalid_witness:
  "verify example_registry [] PasswordHash_default = Invalid \<and>
   verify example_registry ''hunter2'' (PasswordHash_init [] ''abc'' ''abchunter2'') = Invalid"
  using verify_unset_Invalid [of PasswordHash_default example_registry "[]"]
    verify_unset_Invalid [of "PasswordHash_init [] ''abc'' ''abchunter2''" example_registry "''hunter2''"]
  by (simp add: PasswordHash_default_def PasswordHash_init_def)

text \<open>
  C6: for every password and every record whose function is not empty and not in the
  registry, \<open>verify\<close> is \<open>UnknownAlgorithm\<close>, so neither \<open>Valid\<close> nor \<open>Invalid\<close>.
\<close>

theorem verify_unregistered_UnknownAlgorithm:
  "function_' hash \<noteq> [] \<Longrightarrow> reg (function_' hash) = None \<Longrightarrow>
   verify reg password hash = UnknownAlgorithm \<and>
   verify reg password hash \<noteq> Valid \<and>
   verify reg password hash \<noteq> Invalid"
  by (simp add: verify_def registry_get_def)

text \<open>
  C6 on a record that names \<open>md5\<close>, which the example registry does not hold; the
  stored value is the one that \<open>sha1\<close> would accept.
\<close>

theorem verify_unregistered_UnknownAlgorithm_witness:
  "function_' (PasswordHash_init ''md5'' ''abc'' ''abchunter2'') \<noteq> [] \<and>
   example_registry ''md5'' = None \<and>
   verify example_registry ''hunter2'' (PasswordHash_init ''md5'' ''abc'' ''abchunter2'')
     = UnknownAlgorithm"
proof -
  let ?hash = "PasswordHash_init ''md5'' ''abc'' ''abchunter2''"
  have named: "function_' ?hash \<noteq> []"
    by (simp add: PasswordHash_init_def)
  have absent: "example_registry (function_' ?hash) = None"
    by (simp add: PasswordHash_init_def example_registry_md5)
  from named absent
  have "verify example_registry ''hunter2'' ?hash = UnknownAlgorithm"
    using verify_unregistered_UnknownAlgorithm [of ?hash example_registry "''hunter2''"]
    by blast
  with named show ?thesis
    by (simp add: example_registry_md5)
qed

text \<open>
  C7, as amended: round trip under a function registered with an identifier that is not
  the empty string. For every password and salt for which \<open>compute\<close> of that function
  yields a value, computing the record succeeds, and verifying the password against that
  record is \<open>Valid\<close>.
\<close>

theorem verify_compute_record_Valid:
  "identifier \<noteq> [] \<Longrightarrow> reg identifier = Some implementation \<Longrightarrow>
   compute implementation password salt = Inr v \<Longrightarrow>
   compute_record reg identifier password salt = Inr (PasswordHash_init identifier salt v) \<and>
   verify reg password (PasswordHash_init identifier salt v) = Valid"
  by (simp add: compute_record_def verify_def registry_get_def PasswordHash_init_def
      constant_time_equal_iff)

text \<open>
  C7 on the scenario of the spec: the password \<open>hunter2\<close> with the salt \<open>abc\<close> under
  \<open>sha1\<close> of the example registry.
\<close>

theorem verify_compute_record_Valid_witness:
  "compute_record example_registry ''sha1'' ''hunter2'' ''abc''
     = Inr (PasswordHash_init ''sha1'' ''abc'' ''abchunter2'') \<and>
   verify example_registry ''hunter2'' (PasswordHash_init ''sha1'' ''abc'' ''abchunter2'') = Valid"
proof -
  let ?sha1 = "\<lparr>compute = (\<lambda>password salt. Inr (salt @ password))\<rparr>"
  have named: "''sha1'' \<noteq> []"
    by simp
  have run: "compute ?sha1 ''hunter2'' ''abc'' = Inr ''abchunter2''"
    by simp
  from named example_registry_sha1 run show ?thesis
    using verify_compute_record_Valid
      [of "''sha1''" example_registry ?sha1 "''hunter2''" "''abc''" "''abchunter2''"]
    by blast
qed

text \<open>
  C7 as stated fails: a function registered with the empty string as its identifier is
  registered and the record of \<open>hunter2\<close> with the salt \<open>abc\<close> is computed under it,
  but the record names the empty function, which \<open>verify\<close> reads as no credential set:
  verifying \<open>hunter2\<close> against it is \<open>Invalid\<close>.
\<close>

theorem verify_compute_record_empty_identifier_Invalid:
  "registerFunction [] \<lparr>compute = (\<lambda>password salt. Inr (salt @ password))\<rparr> Map.empty []
     = Some \<lparr>compute = (\<lambda>password salt. Inr (salt @ password))\<rparr> \<and>
   compute_record
       (registerFunction [] \<lparr>compute = (\<lambda>password salt. Inr (salt @ password))\<rparr> Map.empty)
       [] ''hunter2'' ''abc''
     = Inr (PasswordHash_init [] ''abc'' ''abchunter2'') \<and>
   verify
       (registerFunction [] \<lparr>compute = (\<lambda>password salt. Inr (salt @ password))\<rparr> Map.empty)
       ''hunter2'' (PasswordHash_init [] ''abc'' ''abchunter2'')
     \<noteq> Valid"
  by (simp add: registerFunction_def compute_record_def registry_get_def verify_def
      PasswordHash_init_def)

end
